theory Spec2Isabelle
  imports Complex_Main "HOL-Library.AList"
begin

section \<open>Questionnaire configuration\<close>

text \<open>
  The scorer of \<^verbatim>\<open>src/app.py\<close> (class \<^verbatim>\<open>RemoteHomeCheckScorer\<close>) keeps two
  tables that are built once in \<^verbatim>\<open>__init__\<close>: the list \<^verbatim>\<open>self.questions\<close> and the
  nested dictionary \<^verbatim>\<open>self.event_impacts\<close>. A question is a dictionary with the three
  keys \<^verbatim>\<open>name\<close>, \<^verbatim>\<open>label\<close> and \<^verbatim>\<open>options\<close>, hence a record. A Python dictionary with
  string keys is an association list in insertion order; looking a key up is
  \<^const>\<open>map_of\<close>, storing one is \<^const>\<open>AList.update\<close> (replace in place, or append).
\<close>

record question =
  name :: string
  label :: string
  options :: "string list"

record impact =
  physical :: int
  mental :: int

type_synonym 'v dict = "(string \<times> 'v) list"

definition questions :: "question list" where
  "questions =
    [ \<lparr>name = ''fall_risk'', label = ''Fall Risk Assessment'',
        options = [''Low'', ''Moderate'', ''High'']\<rparr>,
      \<lparr>name = ''medication_adherence'', label = ''Medication Adherence'',
        options = [''Excellent (95-100%)'', ''Good (80-94%)'', ''Fair (65-79%)'',
                   ''Poor (Below 65%)'']\<rparr>,
      \<lparr>name = ''cognitive_function'', label = ''Cognitive Function Score'',
        options = [''Normal (26-30)'', ''Mild Impairment (21-25)'',
                   ''Moderate Impairment (10-20)'', ''Severe Impairment (0-9)'']\<rparr>,
      \<lparr>name = ''uti_risk'', label = ''UTI Risk Factors'',
        options = [''Low Risk'', ''Moderate Risk'', ''High Risk'']\<rparr>,
      \<lparr>name = ''balance_test'', label = ''Balance Test Result'',
        options = [''Excellent (45-56 seconds)'', ''Good (35-44 seconds)'',
                   ''Fair (25-34 seconds)'', ''Poor (Below 25 seconds)'']\<rparr>,
      \<lparr>name = ''driving_safety'', label = ''Driving Safety Status'',
        options = [''Safe Driver'', ''Minor Concerns'', ''Major Concerns'',
                   ''Unsafe to Drive'']\<rparr>,
      \<lparr>name = ''nighttime_movement'', label = ''Nighttime Movement Patterns'',
        options = [''Normal Patterns'', ''Slightly Increased'', ''Significantly Increased'',
                   ''Concerning Patterns'']\<rparr>,
      \<lparr>name = ''social_engagement'', label = ''Social Engagement Level'',
        options = [''Highly Engaged'', ''Moderately Engaged'', ''Minimally Engaged'',
                   ''Socially Isolated'']\<rparr>,
      \<lparr>name = ''toilet_flush_count'', label = ''Daily Toilet Flush Count'',
        options = [''Normal (6-8 times)'', ''Slightly Elevated (9-12 times)'',
                   ''Elevated (13-16 times)'', ''Very High (17+ times)'']\<rparr> ]"

definition event_impacts :: "impact dict dict" where
  "event_impacts =
    [ (''fall_risk'',
        [ (''Low'', \<lparr>physical = 0, mental = 0\<rparr>),
          (''Moderate'', \<lparr>physical = -3, mental = 0\<rparr>),
          (''High'', \<lparr>physical = -8, mental = 0\<rparr>) ]),
      (''medication_adherence'',
        [ (''Excellent (95-100%)'', \<lparr>physical = 0, mental = 0\<rparr>),
          (''Good (80-94%)'', \<lparr>physical = 0, mental = 0\<rparr>),
          (''Fair (65-79%)'', \<lparr>physical = -1, mental = -1\<rparr>),
          (''Poor (Below 65%)'', \<lparr>physical = -2, mental = -2\<rparr>) ]),
      (''cognitive_function'',
        [ (''Normal (26-30)'', \<lparr>physical = 0, mental = 0\<rparr>),
          (''Mild Impairment (21-25)'', \<lparr>physical = 0, mental = -1\<rparr>),
          (''Moderate Impairment (10-20)'', \<lparr>physical = 0, mental = -3\<rparr>),
          (''Severe Impairment (0-9)'', \<lparr>physical = 0, mental = -5\<rparr>) ]),
      (''uti_risk'',
        [ (''Low Risk'', \<lparr>physical = 0, mental = 0\<rparr>),
          (''Moderate Risk'', \<lparr>physical = -2, mental = 0\<rparr>),
          (''High Risk'', \<lparr>physical = -4, mental = 0\<rparr>) ]),
      (''balance_test'',
        [ (''Excellent (45-56 seconds)'', \<lparr>physical = 0, mental = 0\<rparr>),
          (''Good (35-44 seconds)'', \<lparr>physical = 0, mental = 0\<rparr>),
          (''Fair (25-34 seconds)'', \<lparr>physical = -1, mental = 0\<rparr>),
          (''Poor (Below 25 seconds)'', \<lparr>physical = -2, mental = 0\<rparr>) ]),
      (''driving_safety'',
        [ (''Safe Driver'', \<lparr>physical = 0, mental = 0\<rparr>),
          (''Minor Concerns'', \<lparr>physical = -1, mental = 0\<rparr>),
          (''Major Concerns'', \<lparr>physical = -2, mental = 0\<rparr>),
          (''Unsafe to Drive'', \<lparr>physical = -3, mental = 0\<rparr>) ]),
      (''nighttime_movement'',
        [ (''Normal Patterns'', \<lparr>physical = 0, mental = 0\<rparr>),
          (''Slightly Increased'', \<lparr>physical = 0, mental = 0\<rparr>),
          (''Significantly Increased'', \<lparr>physical = -1, mental = -1\<rparr>),
          (''Concerning Patterns'', \<lparr>physical = -2, mental = -2\<rparr>) ]),
      (''social_engagement'',
        [ (''Highly Engaged'', \<lparr>physical = 0, mental = 0\<rparr>),
          (''Moderately Engaged'', \<lparr>physical = 0, mental = 0\<rparr>),
          (''Minimally Engaged'', \<lparr>physical = 0, mental = -2\<rparr>),
          (''Socially Isolated'', \<lparr>physical = 0, mental = -4\<rparr>) ]),
      (''toilet_flush_count'',
        [ (''Normal (6-8 times)'', \<lparr>physical = 0, mental = 0\<rparr>),
          (''Slightly Elevated (9-12 times)'', \<lparr>physical = 0, mental = 0\<rparr>),
          (''Elevated (13-16 times)'', \<lparr>physical = -1, mental = 0\<rparr>),
          (''Very High (17+ times)'', \<lparr>physical = -2, mental = 0\<rparr>) ]) ]"

definition base_physical_score :: int where
  "base_physical_score = 100"

definition base_mental_score :: int where
  "base_mental_score = 100"

section \<open>Validation of the responses\<close>

text \<open>
  \<^verbatim>\<open>validate_responses\<close> walks \<^verbatim>\<open>self.questions\<close> in order. A question that is not a
  key of \<^verbatim>\<open>responses\<close> appends \<^verbatim>\<open>f"Missing response for {q_name}"\<close> and continues; a
  response that is not in the question's options appends
  \<^verbatim>\<open>f"Invalid response '{response}' for {q_name}"\<close> and continues; otherwise the pair is
  stored in \<^verbatim>\<open>valid_responses\<close>. The loop state is the pair of the dictionary and the
  error list, and the function returns both. Response values are strings.
\<close>

definition missing_message :: "string \<Rightarrow> string" where
  "missing_message q_name = ''Missing response for '' @ q_name"

definition invalid_message :: "string \<Rightarrow> string \<Rightarrow> string" where
  "invalid_message response q_name =
     ''Invalid response '' @ [CHR 0x27] @ response @ [CHR 0x27] @ '' for '' @ q_name"

fun validate_loop ::
  "question list \<Rightarrow> string dict \<Rightarrow> string dict \<times> string list \<Rightarrow> string dict \<times> string list"
where
  "validate_loop [] responses (valid_responses, errors) = (valid_responses, errors)"
| "validate_loop (q # qs) responses (valid_responses, errors) =
     (case map_of responses (name q) of
        None \<Rightarrow>
          validate_loop qs responses (valid_responses, errors @ [missing_message (name q)])
      | Some response \<Rightarrow>
          if response \<notin> set (options q)
          then validate_loop qs responses
                 (valid_responses, errors @ [invalid_message response (name q)])
          else validate_loop qs responses
                 (AList.update (name q) response valid_responses, errors))"

definition validate_responses :: "string dict \<Rightarrow> string dict \<times> string list" where
  "validate_responses responses = validate_loop questions responses ([], [])"

section \<open>Care plan suggestion\<close>

text \<open>
  \<^verbatim>\<open>get_care_plan_suggestion(tier, previous_tier=None)\<close> works on the tier names.
  \<^verbatim>\<open>previous_tier\<close> comes from the patient dictionary and may be absent; the test
  \<^verbatim>\<open>if previous_tier and tier != previous_tier\<close> also treats the empty string as absent.
  The inner \<^verbatim>\<open>if/elif\<close> chain has no \<^verbatim>\<open>else\<close>: a transition that matches none of
  its three branches falls through to the per-tier default.
\<close>

definition suggestions :: "string dict" where
  "suggestions =
    [ (''Independent'',
        ''Resume standard monitoring; schedule motivational check-in and goal-setting session''),
      (''Monitor'',
        ''Conduct comprehensive medication reconciliation; recommend a daytime activity or exercise program''),
      (''Assist'',
        ''Arrange part-time home-care aide (e.g., 12h/week); review medication-adherence log''),
      (''Intervene'',
        ''Recommend car-key removal; seek a senior-living community or arrange for a full-time in-home provider; enrol in fall-prevention PT'') ]"

definition truthy :: "string option \<Rightarrow> bool" where
  "truthy v = (case v of None \<Rightarrow> False | Some s \<Rightarrow> s \<noteq> [])"

definition default_suggestion :: "string \<Rightarrow> string" where
  "default_suggestion tier =
     (case map_of suggestions tier of
        Some suggestion \<Rightarrow> suggestion
      | None \<Rightarrow> ''No specific recommendation'')"

definition get_care_plan_suggestion :: "string \<Rightarrow> string option \<Rightarrow> string" where
  "get_care_plan_suggestion tier previous_tier =
     (if truthy previous_tier \<and> Some tier \<noteq> previous_tier then
        if tier = ''Monitor'' \<and> previous_tier = Some ''Independent'' then
          ''Schedule balance & home-safety assessment; brief caregiver check-in''
        else if tier = ''Assist'' \<and> previous_tier \<in> {Some ''Independent'', Some ''Monitor''} then
          ''Initiate physical-therapy evaluation; schedule telehealth PCP visit within 72h''
        else if tier = ''Intervene'' then
          ''Convene multidisciplinary care conference (PCP, PT/OT, social worker); consider long-term-care placement''
        else default_suggestion tier
      else default_suggestion tier)"

text \<open>The four tier names, for statements that range over the tiers.\<close>

datatype tier_level = Independent | Monitor | Assist | Intervene

fun tier_name :: "tier_level \<Rightarrow> string" where
  "tier_name Independent = ''Independent''"
| "tier_name Monitor = ''Monitor''"
| "tier_name Assist = ''Assist''"
| "tier_name Intervene = ''Intervene''"

section \<open>Binary floating point\<close>

text \<open>
  \<^verbatim>\<open>insight_score = round(0.6 * physical_score + 0.4 * mental_score, 1)\<close> is computed in
  Python floats, which are IEEE 754 binary64 numbers. A finite float is a rational
  number, so floats are modelled as the rationals they denote and every operation
  rounds its exact result to the nearest number with 53 significant bits, ties to the
  even significand: \<open>fl\<close>. The binade of a positive number is found by halving or
  doubling it into \<open>[1, 2)\<close>; the fuel covers the whole exponent range of binary64.
  Overflow, subnormal numbers, infinities and NaN are not modelled: every number the
  scorer forms lies between 0 and 100.
\<close>

definition round_half_even :: "rat \<Rightarrow> int" where
  "round_half_even x =
     (let f = \<lfloor>x\<rfloor>; d = x - of_int f
      in if d < 1 / 2 then f
         else if 1 / 2 < d then f + 1
         else if even f then f else f + 1)"

fun binade :: "nat \<Rightarrow> rat \<Rightarrow> int \<Rightarrow> int" where
  "binade 0 x e = e"
| "binade (Suc fuel) x e =
     (if 2 \<le> x then binade fuel (x / 2) (e + 1)
      else if x < 1 then binade fuel (x * 2) (e - 1)
      else e)"

definition ulp_exponent :: "rat \<Rightarrow> int" where
  "ulp_exponent x = binade 1100 \<bar>x\<bar> 0 - 52"

definition fl :: "rat \<Rightarrow> rat" where
  "fl x =
     (if x = 0 then 0
      else of_int (round_half_even (x / 2 powi ulp_exponent x)) * 2 powi ulp_exponent x)"

text \<open>
  The float operations the scorer uses. An \<^verbatim>\<open>int\<close> operand is converted exactly (the
  scores are far below \<open>2 ^ 53\<close>). \<^verbatim>\<open>round(x, 1)\<close> on a float takes the decimal with one
  digit after the point that is nearest to the exact value of \<open>x\<close>, ties to the even
  digit, and returns the float nearest to that decimal.
\<close>

definition float_literal :: "rat \<Rightarrow> rat" where
  "float_literal d = fl d"

definition float_mul :: "rat \<Rightarrow> rat \<Rightarrow> rat" where
  "float_mul a b = fl (a * b)"

definition float_add :: "rat \<Rightarrow> rat \<Rightarrow> rat" where
  "float_add a b = fl (a + b)"

definition py_round1 :: "rat \<Rightarrow> rat" where
  "py_round1 x = fl (of_int (round_half_even (x * 10)) / 10)"

section \<open>Scores and tier\<close>

text \<open>
  \<^verbatim>\<open>calculate_scores\<close> iterates over \<^verbatim>\<open>responses.items()\<close>; an entry whose question
  is a key of \<^verbatim>\<open>event_impacts\<close> and whose response is a key of that question's
  dictionary adds its impact to the two deltas, any other entry is passed over. The
  loop is a recursion over the items with the two running deltas as accumulator.
\<close>

record score_result =
  physical_score :: int
  mental_score :: int
  insight_score :: rat
  tier :: string
  physical_delta :: int
  mental_delta :: int

fun delta_loop :: "string dict \<Rightarrow> int \<times> int \<Rightarrow> int \<times> int" where
  "delta_loop [] (p_delta, m_delta) = (p_delta, m_delta)"
| "delta_loop ((question_name, response) # rest) (p_delta, m_delta) =
     (case map_of event_impacts question_name of
        None \<Rightarrow> delta_loop rest (p_delta, m_delta)
      | Some sub \<Rightarrow>
         (case map_of sub response of
            None \<Rightarrow> delta_loop rest (p_delta, m_delta)
          | Some impact \<Rightarrow>
              delta_loop rest (p_delta + physical impact, m_delta + mental impact)))"

definition get_insight_tier :: "rat \<Rightarrow> string" where
  "get_insight_tier score =
     (if 90 \<le> score then ''Independent''
      else if 70 \<le> score then ''Monitor''
      else if 50 \<le> score then ''Assist''
      else ''Intervene'')"

definition insight_of :: "int \<Rightarrow> int \<Rightarrow> rat" where
  "insight_of p_score m_score =
     py_round1
       (float_add (float_mul (float_literal (6 / 10)) (of_int p_score))
                  (float_mul (float_literal (4 / 10)) (of_int m_score)))"

definition calculate_scores :: "string dict \<Rightarrow> score_result" where
  "calculate_scores responses =
     (let (p_delta, m_delta) = delta_loop responses (0, 0);
          p_score = max 0 (min 100 (base_physical_score + p_delta));
          m_score = max 0 (min 100 (base_mental_score + m_delta));
          i_score = insight_of p_score m_score
      in \<lparr>physical_score = p_score,
          mental_score = m_score,
          insight_score = i_score,
          tier = get_insight_tier i_score,
          physical_delta = p_delta,
          mental_delta = m_delta\<rparr>)"

section \<open>Processing an assessment\<close>

text \<open>
  \<^verbatim>\<open>assessment_data\<close> is the JSON object of the request. Of its keys the scorer reads
  \<^verbatim>\<open>timestamp\<close>, \<^verbatim>\<open>patient\<close> and \<^verbatim>\<open>responses\<close>, each of which may be absent; the
  patient and the responses may be something else than a dictionary. Of the patient
  the control flow reads \<^verbatim>\<open>email\<close> and \<^verbatim>\<open>previous_tier\<close> only.
\<close>

datatype patient_value = PatientNotDict | PatientDict "string option" "string option"

datatype responses_value = ResponsesNotDict | ResponsesDict "string dict"

record assessment_data =
  ad_timestamp :: "string option"
  ad_patient :: "patient_value option"
  ad_responses :: "responses_value option"

definition validate_assessment_json :: "assessment_data \<Rightarrow> string list" where
  "validate_assessment_json a =
     (if ad_timestamp a = None then [''Missing required field: timestamp''] else []) @
     (if ad_patient a = None then [''Missing required field: patient''] else []) @
     (if ad_responses a = None then [''Missing required field: responses''] else []) @
     (case ad_patient a of
        None \<Rightarrow> []
      | Some PatientNotDict \<Rightarrow> [''Patient field must be a dictionary'']
      | Some (PatientDict email previous) \<Rightarrow>
          if email = None then [''Missing patient email''] else []) @
     (case ad_responses a of
        None \<Rightarrow> []
      | Some ResponsesNotDict \<Rightarrow> [''Responses field must be a dictionary'']
      | Some (ResponsesDict r) \<Rightarrow> snd (validate_responses r))"

text \<open>
  After the scores are computed the method saves the record, renders the report and
  sends the e-mail. These collaborators are outside the scorer: they are a parameter
  that, given the scores and the care plan suggestion of the e-mail body, either raises
  (caught by the enclosing \<^verbatim>\<open>try\<close>, which returns \<^verbatim>\<open>"Processing failed"\<close>) or
  reports \<^verbatim>\<open>email_sent\<close> and \<^verbatim>\<open>pdf_file\<close>.
\<close>

datatype delivery = DeliveryRaises string | Delivered bool string

datatype process_result =
    ErrorResult string "string list"
  | ProcessingFailed string
  | Success bool score_result string

definition process_assessment ::
  "(score_result \<Rightarrow> string \<Rightarrow> delivery) \<Rightarrow> assessment_data \<Rightarrow> process_result"
where
  "process_assessment collaborators a =
     (let errors = validate_assessment_json a
      in if errors \<noteq> [] then ErrorResult ''Invalid assessment data'' errors
         else
           let previous =
                 (case ad_patient a of Some (PatientDict email prev) \<Rightarrow> prev | _ \<Rightarrow> None);
               r = (case ad_responses a of Some (ResponsesDict d) \<Rightarrow> d | _ \<Rightarrow> []);
               (valid_responses, response_errors) = validate_responses r
           in if response_errors \<noteq> [] then ErrorResult ''Invalid responses'' response_errors
              else
                let scores = calculate_scores valid_responses
                in (case collaborators scores
                          (get_care_plan_suggestion (tier scores) previous) of
                      DeliveryRaises e \<Rightarrow> ProcessingFailed e
                    | Delivered email_sent pdf_file \<Rightarrow> Success email_sent scores pdf_file))"

section \<open>Notions of the specification\<close>

text \<open>
  The specification speaks of a clamp, of resolvable entries, of the summed deltas of
  the impact resolver, of the violations a validator has to report, of rounding to one
  decimal place and of the worst-case response set. They are defined here from its
  words, to be compared with what the code computes.
\<close>

definition clamp :: "int \<Rightarrow> int \<Rightarrow> int \<Rightarrow> int" where
  "clamp x lo hi = (if x < lo then lo else if hi < x then hi else x)"

definition resolvable :: "string \<Rightarrow> string \<Rightarrow> bool" where
  "resolvable q opt =
     (case map_of event_impacts q of
        None \<Rightarrow> False
      | Some sub \<Rightarrow> (case map_of sub opt of None \<Rightarrow> False | Some i \<Rightarrow> True))"

definition impact_of :: "string \<times> string \<Rightarrow> impact" where
  "impact_of entry =
     (case map_of event_impacts (fst entry) of
        None \<Rightarrow> \<lparr>physical = 0, mental = 0\<rparr>
      | Some sub \<Rightarrow>
         (case map_of sub (snd entry) of
            None \<Rightarrow> \<lparr>physical = 0, mental = 0\<rparr>
          | Some i \<Rightarrow> i))"

definition is_missing :: "string dict \<Rightarrow> question \<Rightarrow> bool" where
  "is_missing r q = (map_of r (name q) = None)"

definition is_invalid :: "string dict \<Rightarrow> question \<Rightarrow> bool" where
  "is_invalid r q =
     (case map_of r (name q) of None \<Rightarrow> False | Some v \<Rightarrow> v \<notin> set (options q))"

definition violations :: "string dict \<Rightarrow> question \<Rightarrow> string list" where
  "violations r q =
     (case map_of r (name q) of
        None \<Rightarrow> [missing_message (name q)]
      | Some v \<Rightarrow> if v \<in> set (options q) then [] else [invalid_message v (name q)])"

definition round1_half_up :: "rat \<Rightarrow> rat" where
  "round1_half_up x = of_int \<lfloor>x * 10 + 1 / 2\<rfloor> / 10"

definition round1_half_even :: "rat \<Rightarrow> rat" where
  "round1_half_even x = of_int (round_half_even (x * 10)) / 10"

definition worst_case_responses :: "string dict" where
  "worst_case_responses =
    [ (''fall_risk'', ''High''),
      (''medication_adherence'', ''Poor (Below 65%)''),
      (''cognitive_function'', ''Severe Impairment (0-9)''),
      (''uti_risk'', ''High Risk''),
      (''balance_test'', ''Poor (Below 25 seconds)''),
      (''driving_safety'', ''Unsafe to Drive''),
      (''nighttime_movement'', ''Concerning Patterns''),
      (''social_engagement'', ''Socially Isolated''),
      (''toilet_flush_count'', ''Very High (17+ times)'') ]"

definition worst_option :: "string \<Rightarrow> string" where
  "worst_option q = (case map_of worst_case_responses q of Some w \<Rightarrow> w | None \<Rightarrow> [])"

section \<open>The loop of the impact resolver\<close>

text \<open>
  The accumulator loop of \<^verbatim>\<open>calculate_scores\<close> adds, to each running delta, the sum of
  the impacts of the items, where an item that does not resolve counts as zero.
\<close>

lemma delta_loop_sum:
  "delta_loop r (a, b) =
     (a + (\<Sum>e\<leftarrow>r. physical (impact_of e)), b + (\<Sum>e\<leftarrow>r. mental (impact_of e)))"
proof (induction r arbitrary: a b)
  case Nil
  show ?case by simp
next
  case (Cons e r)
  obtain q opt where e: "e = (q, opt)" by (cases e)
  show ?case
    by (simp add: e Cons.IH impact_of_def split: option.splits)
qed

lemma impact_of_unresolvable:
  "\<not> resolvable q opt \<Longrightarrow> impact_of (q, opt) = \<lparr>physical = 0, mental = 0\<rparr>"
  by (simp add: resolvable_def impact_of_def split: option.splits)

lemma update_fresh: "map_of r q = None \<Longrightarrow> AList.update q v r = r @ [(q, v)]"
  by (induction r) (auto split: if_splits)

lemma calculate_scores_sums:
  "calculate_scores r =
     (let pd = (\<Sum>e\<leftarrow>r. physical (impact_of e)); md = (\<Sum>e\<leftarrow>r. mental (impact_of e));
          ps = max 0 (min 100 (100 + pd)); ms = max 0 (min 100 (100 + md))
      in \<lparr>physical_score = ps, mental_score = ms, insight_score = insight_of ps ms,
          tier = get_insight_tier (insight_of ps ms), physical_delta = pd, mental_delta = md\<rparr>)"
  by (simp add: calculate_scores_def delta_loop_sum Let_def base_physical_score_def
      base_mental_score_def)

text \<open>
  Claim C3. For every response set, \<^verbatim>\<open>physical_score\<close> is the clamp of 100 plus the
  summed physical delta to the range from 0 to 100, \<^verbatim>\<open>mental_score\<close> is the same with
  the summed mental delta, the deltas are the sums of the impacts of the entries, and
  both scores lie between 0 and 100 inclusive. This holds for every list of entries,
  hence for the response sets that contain known (question, option) pairs only.
\<close>

theorem scores_clamped:
  "physical_score (calculate_scores r) =
     clamp (100 + physical_delta (calculate_scores r)) 0 100 \<and>
   mental_score (calculate_scores r) =
     clamp (100 + mental_delta (calculate_scores r)) 0 100 \<and>
   physical_delta (calculate_scores r) = (\<Sum>e\<leftarrow>r. physical (impact_of e)) \<and>
   mental_delta (calculate_scores r) = (\<Sum>e\<leftarrow>r. mental (impact_of e)) \<and>
   0 \<le> physical_score (calculate_scores r) \<and> physical_score (calculate_scores r) \<le> 100 \<and>
   0 \<le> mental_score (calculate_scores r) \<and> mental_score (calculate_scores r) \<le> 100"
  by (simp add: calculate_scores_sums Let_def clamp_def)

lemma sum_update_unknown:
  assumes "map_of event_impacts q = None"
  shows "(\<Sum>e\<leftarrow>AList.update q opt r. physical (impact_of e)) = (\<Sum>e\<leftarrow>r. physical (impact_of e))"
    and "(\<Sum>e\<leftarrow>AList.update q opt r. mental (impact_of e)) = (\<Sum>e\<leftarrow>r. mental (impact_of e))"
proof -
  have z: "impact_of (q, v) = \<lparr>physical = 0, mental = 0\<rparr>" for v
    using assms by (simp add: impact_of_def)
  have "map impact_of (AList.update q opt r) = map impact_of r @ (if map_of r q = None then [\<lparr>physical = 0, mental = 0\<rparr>] else [])"
  proof (induction r)
    case Nil
    show ?case by (simp add: z)
  next
    case (Cons p r)
    obtain k v where p: "p = (k, v)" by (cases p)
    show ?case using Cons.IH by (simp add: p z)
  qed
  then have m: "map (f \<circ> impact_of) (AList.update q opt r) =
      map (f \<circ> impact_of) r @ (if map_of r q = None then [f \<lparr>physical = 0, mental = 0\<rparr>] else [])" for f :: "impact \<Rightarrow> int"
    by (simp flip: map_map)
  show "(\<Sum>e\<leftarrow>AList.update q opt r. physical (impact_of e)) = (\<Sum>e\<leftarrow>r. physical (impact_of e))"
    using m [of physical] by (simp add: o_def)
  show "(\<Sum>e\<leftarrow>AList.update q opt r. mental (impact_of e)) = (\<Sum>e\<leftarrow>r. mental (impact_of e))"
    using m [of mental] by (simp add: o_def)
qed

text \<open>
  Claim C7. An entry that does not resolve (its question is not a key of the impact
  table, or its option is not a key of that question's sub-table) is passed over:
  the scores of a response set with such an entry, wherever it stands among the items,
  are the scores of the set without it. In particular storing such an entry under a
  new key, or under any key when its question is not in the impact table, leaves the
  result of \<^verbatim>\<open>calculate_scores\<close> unchanged. The function is total, so no error is
  raised.
\<close>

theorem unresolvable_entry_skipped:
  assumes "\<not> resolvable q opt"
  shows "calculate_scores (xs @ (q, opt) # ys) = calculate_scores (xs @ ys) \<and>
         (map_of r q = None \<longrightarrow> calculate_scores (AList.update q opt r) = calculate_scores r) \<and>
         (map_of event_impacts q = None \<longrightarrow>
            calculate_scores (AList.update q opt r) = calculate_scores r)"
  using assms
  by (simp add: calculate_scores_sums impact_of_unresolvable update_fresh sum_update_unknown)

theorem unresolvable_entry_skipped_witness:
  "\<not> resolvable ''mood'' ''Low'' \<and> \<not> resolvable ''fall_risk'' ''Bogus'' \<and>
   calculate_scores [(''fall_risk'', ''High''), (''mood'', ''Low'')] =
     calculate_scores [(''fall_risk'', ''High'')] \<and>
   calculate_scores (AList.update ''fall_risk'' ''Bogus'' [(''uti_risk'', ''High Risk'')]) =
     calculate_scores [(''uti_risk'', ''High Risk'')] \<and>
   calculate_scores (AList.update ''mood'' ''Low'' [(''mood'', ''High''), (''fall_risk'', ''High'')]) =
     calculate_scores [(''mood'', ''High''), (''fall_risk'', ''High'')]"
proof -
  have a: "\<not> resolvable ''mood'' ''Low''"
    by (simp add: resolvable_def event_impacts_def)
  have b: "\<not> resolvable ''fall_risk'' ''Bogus''"
    by (simp add: resolvable_def event_impacts_def)
  have c: "map_of event_impacts ''mood'' = None"
    by (simp add: event_impacts_def)
  show ?thesis
    using a b c
      unresolvable_entry_skipped [OF a, of "[(''fall_risk'', ''High'')]" "[]"
        "[(''mood'', ''High''), (''fall_risk'', ''High'')]"]
      unresolvable_entry_skipped [OF b, of "[]" "[]" "[(''uti_risk'', ''High Risk'')]"]
    by simp
qed

section \<open>The static tables\<close>

text \<open>
  Claim C9. Every option listed for a question in \<^verbatim>\<open>self.questions\<close> has an entry in
  \<^verbatim>\<open>self.event_impacts\<close> under that question's name, and every physical and mental
  delta of the table is an integer between -8 and 0.
\<close>

theorem impact_table_invariant:
  "(\<forall>q \<in> set questions. \<forall>opt \<in> set (options q). resolvable (name q) opt) \<and>
   (\<forall>(q, sub) \<in> set event_impacts. \<forall>(opt, i) \<in> set sub.
      - 8 \<le> physical i \<and> physical i \<le> 0 \<and> - 8 \<le> mental i \<and> mental i \<le> 0)"
  by (simp add: questions_def event_impacts_def resolvable_def)

theorem impact_table_invariant_witness:
  "resolvable ''fall_risk'' ''High'' \<and>
   resolvable ''toilet_flush_count'' ''Very High (17+ times)'' \<and>
   - 8 \<le> physical (impact_of (''fall_risk'', ''High'')) \<and>
   mental (impact_of (''cognitive_function'', ''Severe Impairment (0-9)'')) \<le> 0"
  using impact_table_invariant
  by (simp add: questions_def event_impacts_def impact_of_def)

section \<open>The care plan advisor\<close>

text \<open>
  Claim C6. The advisor is total: for each of the four tiers and each of the five
  values of the previous tier (one of the four tiers, or absent) it returns a
  non-empty string, and when the previous tier is absent or equal to the tier the
  string is the steady-state entry of the tier in the \<^verbatim>\<open>suggestions\<close> dictionary.
\<close>

theorem care_plan_total:
  "get_care_plan_suggestion (tier_name t) (map_option tier_name prev) \<noteq> [] \<and>
   (prev = None \<or> prev = Some t \<longrightarrow>
      map_of suggestions (tier_name t) =
        Some (get_care_plan_suggestion (tier_name t) (map_option tier_name prev)))"
  by (cases t; cases prev; (cases "the prev")?)
     (simp_all add: get_care_plan_suggestion_def default_suggestion_def suggestions_def
        truthy_def)

theorem care_plan_total_witness:
  "get_care_plan_suggestion ''Assist'' None =
     ''Arrange part-time home-care aide (e.g., 12h/week); review medication-adherence log'' \<and>
   get_care_plan_suggestion ''Monitor'' (Some ''Monitor'') =
     ''Conduct comprehensive medication reconciliation; recommend a daytime activity or exercise program''"
  using care_plan_total [of Assist None] care_plan_total [of Monitor "Some Monitor"]
  by (simp add: suggestions_def)

text \<open>
  Claim C5. When the tier is Intervene and the previous tier is present and differs
  from it, the advisor returns the multidisciplinary care conference recommendation,
  whatever the previous tier is; no other rule applies to such an input. In
  particular this is the answer for the tier Intervene after Monitor.
\<close>

theorem intervene_transition_override:
  "truthy prev \<Longrightarrow> prev \<noteq> Some ''Intervene'' \<Longrightarrow>
   get_care_plan_suggestion ''Intervene'' prev =
     ''Convene multidisciplinary care conference (PCP, PT/OT, social worker); consider long-term-care placement''"
  by (auto simp add: get_care_plan_suggestion_def)

theorem intervene_transition_override_witness:
  "truthy (Some ''Monitor'') \<and>
   get_care_plan_suggestion ''Intervene'' (Some ''Monitor'') =
     ''Convene multidisciplinary care conference (PCP, PT/OT, social worker); consider long-term-care placement''"
  using intervene_transition_override [of "Some ''Monitor''"] by (simp add: truthy_def)

section \<open>Validation\<close>

lemma snd_validate_loop:
  "snd (validate_loop qs r (valid, errs)) = errs @ concat (map (violations r) qs)"
  by (induction qs arbitrary: valid errs) (simp_all add: violations_def split: option.splits)

lemma length_violations:
  "length (concat (map (violations r) qs)) =
     length (filter (is_missing r) qs) + length (filter (is_invalid r) qs)"
  by (induction qs)
     (simp_all add: violations_def is_missing_def is_invalid_def split: option.splits)

text \<open>
  Claim C8. \<^verbatim>\<open>validate_responses\<close> reports every violation, not only the first: its
  error list is, in the order of the questions, one message for each question that
  is missing from the responses and one for each question whose response is not
  among its options, so its length is the number of missing questions plus the
  number of invalid ones. When this list is not empty, \<^verbatim>\<open>process_assessment\<close> returns
  the error result \<^verbatim>\<open>"Invalid assessment data"\<close>, whose details contain every one of
  these errors, and no scores.
\<close>

theorem validation_lists_every_violation:
  "snd (validate_responses r) = concat (map (violations r) questions) \<and>
   length (snd (validate_responses r)) =
     length (filter (is_missing r) questions) + length (filter (is_invalid r) questions) \<and>
   (\<forall>q \<in> set questions. is_missing r q \<longrightarrow>
      missing_message (name q) \<in> set (snd (validate_responses r))) \<and>
   (\<forall>q \<in> set questions. \<forall>v. map_of r (name q) = Some v \<and> v \<notin> set (options q) \<longrightarrow>
      invalid_message v (name q) \<in> set (snd (validate_responses r))) \<and>
   (snd (validate_responses r) \<noteq> [] \<and> ad_responses a = Some (ResponsesDict r) \<longrightarrow>
      process_assessment c a =
        ErrorResult ''Invalid assessment data'' (validate_assessment_json a) \<and>
      set (snd (validate_responses r)) \<subseteq> set (validate_assessment_json a))"
proof -
  have errs: "snd (validate_responses r) = concat (map (violations r) questions)"
    by (simp add: validate_responses_def snd_validate_loop)
  have len: "length (snd (validate_responses r)) =
     length (filter (is_missing r) questions) + length (filter (is_invalid r) questions)"
    by (simp only: errs length_violations)
  have miss: "\<forall>q \<in> set questions. is_missing r q \<longrightarrow>
      missing_message (name q) \<in> set (snd (validate_responses r))"
  proof -
    have "\<forall>q \<in> set questions. is_missing r q \<longrightarrow>
        missing_message (name q) \<in> set (violations r q)"
      by (simp add: violations_def is_missing_def)
    then show ?thesis unfolding errs by auto
  qed
  have inv: "\<forall>q \<in> set questions. \<forall>v. map_of r (name q) = Some v \<and> v \<notin> set (options q) \<longrightarrow>
      invalid_message v (name q) \<in> set (snd (validate_responses r))"
  proof -
    have "\<forall>q \<in> set questions. \<forall>v. map_of r (name q) = Some v \<and> v \<notin> set (options q) \<longrightarrow>
        invalid_message v (name q) \<in> set (violations r q)"
      by (simp add: violations_def)
    then show ?thesis unfolding errs by auto
  qed
  have proc: "snd (validate_responses r) \<noteq> [] \<and> ad_responses a = Some (ResponsesDict r) \<longrightarrow>
      process_assessment c a =
        ErrorResult ''Invalid assessment data'' (validate_assessment_json a) \<and>
      set (snd (validate_responses r)) \<subseteq> set (validate_assessment_json a)"
    by (auto simp: process_assessment_def validate_assessment_json_def Let_def)
  from errs len miss inv proc show ?thesis by blast
qed

theorem validation_lists_every_violation_witness:
  "snd (validate_responses [(''fall_risk'', ''Bogus'')]) =
     [invalid_message ''Bogus'' ''fall_risk'',
      missing_message ''medication_adherence'', missing_message ''cognitive_function'',
      missing_message ''uti_risk'', missing_message ''balance_test'',
      missing_message ''driving_safety'', missing_message ''nighttime_movement'',
      missing_message ''social_engagement'', missing_message ''toilet_flush_count''] \<and>
   process_assessment (\<lambda>scores suggestion. Delivered True ''report.pdf'')
     \<lparr>ad_timestamp = Some ''2024-01-01'',
      ad_patient = Some (PatientDict (Some ''a@b.c'') None),
      ad_responses = Some (ResponsesDict [(''fall_risk'', ''Bogus'')])\<rparr> =
     ErrorResult ''Invalid assessment data''
       (snd (validate_responses [(''fall_risk'', ''Bogus'')]))"
  using validation_lists_every_violation [of "[(''fall_risk'', ''Bogus'')]"
      "\<lparr>ad_timestamp = Some ''2024-01-01'',
        ad_patient = Some (PatientDict (Some ''a@b.c'') None),
        ad_responses = Some (ResponsesDict [(''fall_risk'', ''Bogus'')])\<rparr>"
      "\<lambda>scores suggestion. Delivered True ''report.pdf''"]
  by (simp add: violations_def questions_def validate_assessment_json_def)

section \<open>Rounding to binary64\<close>

text \<open>
  Rounding to the nearest integer moves a number by at most one half, returns the
  integer that is strictly nearer than one half, and never crosses an integer.
\<close>

lemma round_half_even_close: "\<bar>of_int (round_half_even y) - y\<bar> \<le> 1 / 2"
proof -
  have "of_int \<lfloor>y\<rfloor> \<le> y" "y < of_int \<lfloor>y\<rfloor> + 1" by linarith+
  then show ?thesis
    by (auto simp add: round_half_even_def Let_def)
qed

lemma round_half_even_unique:
  assumes "\<bar>y - of_int n\<bar> < 1 / 2"
  shows "round_half_even y = n"
proof -
  have "\<bar>of_int (round_half_even y) - y\<bar> \<le> 1 / 2" by (rule round_half_even_close)
  with assms have "\<bar>(of_int (round_half_even y) :: rat) - of_int n\<bar> < 1" by linarith
  then have "\<bar>round_half_even y - n\<bar> < 1"
    by (metis of_int_diff of_int_abs of_int_less_1_iff)
  then show ?thesis by linarith
qed

lemma round_half_even_ge_int:
  assumes "of_int n \<le> y"
  shows "n \<le> round_half_even y"
proof -
  from assms have "n \<le> \<lfloor>y\<rfloor>" by (simp add: le_floor_iff)
  then show ?thesis by (auto simp add: round_half_even_def Let_def)
qed

lemma binade_upper:
  "0 < x \<Longrightarrow> x < 2 ^ Suc k \<Longrightarrow> binade fuel x e \<le> e + int k"
proof (induction fuel arbitrary: x e k)
  case 0
  then show ?case by simp
next
  case (Suc fuel)
  show ?case
  proof (cases "2 \<le> x")
    case True
    then obtain j where k: "k = Suc j" using Suc.prems
      by (cases k) auto
    have "binade fuel (x / 2) (e + 1) \<le> (e + 1) + int j"
      using Suc.prems True k by (intro Suc.IH) auto
    then show ?thesis using True k by simp
  next
    case False
    show ?thesis
    proof (cases "x < 1")
      case True
      have "binade fuel (x * 2) (e - 1) \<le> (e - 1) + int 0"
        using Suc.prems True by (intro Suc.IH) auto
      then show ?thesis using True False by simp
    next
      case F2: False
      then show ?thesis using False by simp
    qed
  qed
qed


text \<open>
  With enough fuel the search finds the binade: the scaled magnitude has exactly 53
  bits before the point, over the whole range of the finite binary64 numbers.
\<close>

lemma powi_succ: "(2::rat) powi (k + 1) = 2 * 2 powi k"
  by (simp add: power_int_add)

lemma binade_bounds:
  assumes "1 / 2 ^ n \<le> x" "x < 2 ^ Suc n" "n \<le> fuel"
  shows "2 powi (binade fuel x e - e) \<le> x \<and> x < 2 powi (binade fuel x e - e + 1)"
  using assms
proof (induction fuel arbitrary: x e n)
  case 0
  then show ?case by simp
next
  case (Suc fuel)
  show ?case
  proof (cases "2 \<le> x")
    case True
    then obtain j where n: "n = Suc j" using Suc.prems(2) by (cases n) auto
    define d where "d = binade fuel (x / 2) (e + 1) - (e + 1)"
    have "2 powi d \<le> x / 2 \<and> x / 2 < 2 powi (d + 1)"
      unfolding d_def
    proof (rule Suc.IH [of j])
      have "1 / 2 ^ j \<le> (1::rat)" by (simp add: divide_le_eq)
      then show "1 / 2 ^ j \<le> x / 2" using True by linarith
      show "x / 2 < 2 ^ Suc j" using Suc.prems(2) n by simp
      show "j \<le> fuel" using Suc.prems(3) n by simp
    qed
    then have "2 powi (d + 1) \<le> x \<and> x < 2 powi (d + 1 + 1)"
      using powi_succ [of d] powi_succ [of "d + 1"] by linarith
    moreover have "binade (Suc fuel) x e - e = d + 1"
      using True by (simp add: d_def)
    ultimately show ?thesis by simp
  next
    case False
    show ?thesis
    proof (cases "x < 1")
      case True
      then obtain j where n: "n = Suc j" using Suc.prems(1) by (cases n) auto
      define d where "d = binade fuel (x * 2) (e - 1) - (e - 1)"
      have "2 powi d \<le> x * 2 \<and> x * 2 < 2 powi (d + 1)"
        unfolding d_def
      proof (rule Suc.IH [of j])
        show "1 / 2 ^ j \<le> x * 2" using Suc.prems(1) n by (simp add: field_simps)
        have "(2::rat) \<le> 2 ^ Suc j" by simp
        then show "x * 2 < 2 ^ Suc j" using True by linarith
        show "j \<le> fuel" using Suc.prems(3) n by simp
      qed
      then have "2 powi (d - 1) \<le> x \<and> x < 2 powi (d - 1 + 1)"
        using powi_succ [of "d - 1"] powi_succ [of d] by simp
      moreover have "binade (Suc fuel) x e - e = d - 1"
        using True False by (simp add: d_def)
      ultimately show ?thesis by simp
    next
      case F2: False
      then show ?thesis using False by simp
    qed
  qed
qed

lemma significand_53_bits:
  assumes "1 / 2 ^ 1074 \<le> \<bar>x\<bar>" "\<bar>x\<bar> < 2 ^ 1024"
  shows "2 ^ 52 \<le> \<bar>x\<bar> / 2 powi ulp_exponent x \<and> \<bar>x\<bar> / 2 powi ulp_exponent x < 2 ^ 53"
proof -
  define b where "b = binade 1100 \<bar>x\<bar> 0"
  define y where "y = \<bar>x\<bar> / 2 powi b"
  have "(2::rat) ^ 1024 \<le> 2 ^ Suc 1074" by (intro power_increasing) auto
  then have "\<bar>x\<bar> < 2 ^ Suc 1074" using assms(2) by linarith
  with assms(1) have "2 powi (b - 0) \<le> \<bar>x\<bar> \<and> \<bar>x\<bar> < 2 powi (b - 0 + 1)"
    unfolding b_def by (intro binade_bounds [of 1074]) auto
  then have bb: "2 powi b \<le> \<bar>x\<bar>" "\<bar>x\<bar> < 2 * 2 powi b"
    using powi_succ [of b] by simp_all
  have pos: "(0::rat) < 2 powi b" by (simp add: zero_less_power_int)
  have y: "1 \<le> y" "y < 2"
    unfolding y_def using bb pos by (simp_all add: pos_le_divide_eq pos_divide_less_eq)
  have u: "(2::rat) powi ulp_exponent x = 2 powi b / 2 ^ 52"
    by (simp add: ulp_exponent_def b_def power_int_diff)
  have "\<bar>x\<bar> / 2 powi ulp_exponent x = y * 2 ^ 52"
    unfolding u y_def by simp
  then show ?thesis using y by simp
qed

lemma round_half_even_le_int:
  assumes "y \<le> of_int n"
  shows "round_half_even y \<le> n"
proof -
  have fle: "\<lfloor>y\<rfloor> \<le> n" using assms by (simp add: floor_le_iff)
  show ?thesis
  proof (cases "\<lfloor>y\<rfloor> = n")
    case True
    then have "y = of_int \<lfloor>y\<rfloor>" using assms by (metis of_int_floor_le order_antisym)
    then show ?thesis using True by (simp add: round_half_even_def Let_def)
  next
    case False
    with fle have "\<lfloor>y\<rfloor> + 1 \<le> n" by simp
    then show ?thesis using fle by (auto simp add: round_half_even_def Let_def)
  qed
qed

lemma ulp_exponent_small:
  assumes "x \<noteq> 0" "\<bar>x\<bar> < 128"
  shows "ulp_exponent x \<le> - 46"
proof -
  have "binade 1100 \<bar>x\<bar> 0 \<le> 0 + int 6"
    using assms by (intro binade_upper) auto
  then show ?thesis by (simp add: ulp_exponent_def)
qed

lemma fl_error:
  assumes "\<bar>x\<bar> < 128"
  shows "\<bar>fl x - x\<bar> \<le> 1 / 2 ^ 47"
proof (cases "x = 0")
  case True
  then show ?thesis by (simp add: fl_def)
next
  case False
  define u :: rat where "u = 2 powi ulp_exponent x"
  have upos: "0 < u" by (simp add: u_def zero_less_power_int)
  have "u \<le> 2 powi (- 46)"
    unfolding u_def using ulp_exponent_small [OF False assms]
    by (intro power_int_increasing) auto
  then have ule: "u \<le> 1 / 2 ^ 46" by (simp add: power_int_minus_divide)
  have "fl x - x = u * (of_int (round_half_even (x / u)) - x / u)"
    using False upos by (simp add: fl_def u_def algebra_simps)
  then have "\<bar>fl x - x\<bar> = u * \<bar>of_int (round_half_even (x / u)) - x / u\<bar>"
    using upos by (simp add: abs_mult)
  also have "\<dots> \<le> u * (1 / 2)"
    using upos round_half_even_close [of "x / u"] by (intro mult_left_mono) auto
  also have "\<dots> \<le> (1 / 2 ^ 46) * (1 / 2)"
    using ule by simp
  finally show ?thesis by simp
qed

lemma fl_ge_int:
  assumes "\<bar>x\<bar> < 128" "of_int n \<le> x"
  shows "of_int n \<le> fl x"
proof (cases "x = 0")
  case True
  then show ?thesis using assms by (simp add: fl_def)
next
  case False
  define j where "j = nat (- ulp_exponent x)"
  have e: "ulp_exponent x = - int j"
    using ulp_exponent_small [OF False assms(1)] by (simp add: j_def)
  have u: "(2::rat) powi ulp_exponent x = 1 / 2 ^ j"
    by (simp add: e power_int_minus_divide)
  have "(of_int (n * 2 ^ j) :: rat) \<le> x * 2 ^ j"
    using assms(2) by simp
  then have "n * 2 ^ j \<le> round_half_even (x * 2 ^ j)" by (rule round_half_even_ge_int)
  then have "(of_int (n * 2 ^ j) :: rat) \<le> of_int (round_half_even (x * 2 ^ j))"
    by (simp only: of_int_le_iff)
  then have "(of_int n :: rat) * 2 ^ j \<le> of_int (round_half_even (x * 2 ^ j))"
    by simp
  then have "(of_int n :: rat) \<le> of_int (round_half_even (x * 2 ^ j)) / 2 ^ j"
    by (simp add: pos_le_divide_eq)
  then show ?thesis using False by (simp add: fl_def u)
qed

lemma fl_le_int:
  assumes "\<bar>x\<bar> < 128" "x \<le> of_int n"
  shows "fl x \<le> of_int n"
proof (cases "x = 0")
  case True
  then show ?thesis using assms by (simp add: fl_def)
next
  case False
  define j where "j = nat (- ulp_exponent x)"
  have e: "ulp_exponent x = - int j"
    using ulp_exponent_small [OF False assms(1)] by (simp add: j_def)
  have u: "(2::rat) powi ulp_exponent x = 1 / 2 ^ j"
    by (simp add: e power_int_minus_divide)
  have "x * 2 ^ j \<le> (of_int (n * 2 ^ j) :: rat)"
    using assms(2) by simp
  then have "round_half_even (x * 2 ^ j) \<le> n * 2 ^ j" by (rule round_half_even_le_int)
  then have "(of_int (round_half_even (x * 2 ^ j)) :: rat) \<le> of_int (n * 2 ^ j)"
    by (simp only: of_int_le_iff)
  then have "of_int (round_half_even (x * 2 ^ j)) \<le> (of_int n :: rat) * 2 ^ j"
    by simp
  then have "of_int (round_half_even (x * 2 ^ j)) / 2 ^ j \<le> (of_int n :: rat)"
    by (simp add: pos_divide_le_eq)
  then show ?thesis using False by (simp add: fl_def u)
qed

lemma float_literal_06: "float_literal (6 / 10) = 5404319552844595 / 9007199254740992"
  by code_simp

lemma float_literal_04: "float_literal (4 / 10) = 3602879701896397 / 9007199254740992"
  by code_simp


lemma weighted_term_error:
  assumes c: "\<bar>c - w\<bar> \<le> 1 / (5 * 2 ^ 53)" and w: "0 \<le> w" "w \<le> 1"
    and p: "0 \<le> p" "p \<le> 100"
  shows "\<bar>fl (c * of_int p) - w * of_int p\<bar> \<le> 1 / 1000000000000"
proof -
  have p': "(0::rat) \<le> of_int p" "(of_int p :: rat) \<le> 100" using p by simp_all
  have "\<bar>c * of_int p - w * of_int p\<bar> = \<bar>c - w\<bar> * of_int p"
    using p' by (simp add: abs_mult flip: left_diff_distrib)
  also have "\<dots> \<le> (1 / (5 * 2 ^ 53)) * 100"
    using c p' by (intro mult_mono) auto
  also have "\<dots> \<le> 1 / 2000000000000" by simp
  finally have d: "\<bar>c * of_int p - w * of_int p\<bar> \<le> 1 / 2000000000000" .
  have "w * of_int p \<le> 1 * 100" using w p' by (intro mult_mono) auto
  moreover have "0 \<le> w * of_int p" using w p' by simp
  ultimately have "\<bar>c * of_int p\<bar> < 128" using d by linarith
  then have "\<bar>fl (c * of_int p) - c * of_int p\<bar> \<le> 1 / 2 ^ 47" by (rule fl_error)
  moreover have "(1 / 2 ^ 47 :: rat) \<le> 1 / 2000000000000" by simp
  ultimately show ?thesis using d by linarith
qed

lemma insight_of_nearest:
  assumes "0 \<le> p" "p \<le> 100" "0 \<le> m" "m \<le> 100"
  shows "insight_of p m = fl (of_int (6 * p + 4 * m) / 10)"
proof -
  define a where "a = fl (float_literal (6 / 10) * of_int p)"
  define b where "b = fl (float_literal (4 / 10) * of_int m)"
  define s where "s = fl (a + b)"
  have p': "(0::rat) \<le> of_int p" "(of_int p :: rat) \<le> 100"
    and m': "(0::rat) \<le> of_int m" "(of_int m :: rat) \<le> 100" using assms by simp_all
  have c6: "\<bar>float_literal (6 / 10) - 6 / 10\<bar> \<le> 1 / (5 * 2 ^ 53)"
    unfolding float_literal_06 by simp
  have c4: "\<bar>float_literal (4 / 10) - 4 / 10\<bar> \<le> 1 / (5 * 2 ^ 53)"
    unfolding float_literal_04 by simp
  have a: "\<bar>a - 6 / 10 * of_int p\<bar> \<le> 1 / 1000000000000"
    unfolding a_def by (rule weighted_term_error [OF c6 _ _ assms(1,2)]) simp_all
  have b: "\<bar>b - 4 / 10 * of_int m\<bar> \<le> 1 / 1000000000000"
    unfolding b_def by (rule weighted_term_error [OF c4 _ _ assms(3,4)]) simp_all
  have "\<bar>a + b\<bar> < 128" using a b p' m' by linarith
  then have "\<bar>s - (a + b)\<bar> \<le> 1 / 2 ^ 47" unfolding s_def by (rule fl_error)
  moreover have "(1 / 2 ^ 47 :: rat) \<le> 1 / 1000000000000" by simp
  moreover have "(of_int (6 * p + 4 * m) :: rat) = 10 * (6 / 10 * of_int p + 4 / 10 * of_int m)"
    by simp
  ultimately have "\<bar>s * 10 - of_int (6 * p + 4 * m)\<bar> < 1 / 2" using a b by linarith
  then have "round_half_even (s * 10) = 6 * p + 4 * m" by (rule round_half_even_unique)
  then show ?thesis
    unfolding insight_of_def py_round1_def float_add_def float_mul_def s_def a_def b_def
    by (simp only:)
qed


section \<open>The insight score\<close>

text \<open>
  The exact value of \<open>0.6 * p + 0.4 * m\<close> for integers is a multiple of one tenth, so
  rounding it to one decimal place changes nothing, whatever is done with ties.
\<close>

lemma round1_exact:
  "round1_half_up (of_int k / 10) = of_int k / 10"
  "round1_half_even (of_int k / 10) = of_int k / 10"
proof -
  have "\<lfloor>(of_int k :: rat) + 1 / 2\<rfloor> = k" by linarith
  then show "round1_half_up (of_int k / 10) = of_int k / 10"
    by (simp add: round1_half_up_def)
  have "round_half_even (of_int k) = k"
    by (rule round_half_even_unique) simp
  then show "round1_half_even (of_int k / 10) = of_int k / 10"
    by (simp add: round1_half_even_def)
qed

lemma weighted_sum_tenths:
  "6 / 10 * (of_int p :: rat) + 4 / 10 * of_int m = of_int (6 * p + 4 * m) / 10"
  by simp

text \<open>
  Claim C4. The insight score of a result is computed from its two clamped scores, and
  for every pair of integer scores between 0 and 100 it is the float nearest to the
  exact value of \<open>0.6 * physical_score + 0.4 * mental_score\<close> rounded to one decimal
  place, with ties rounded up or to even alike: the exact value has one decimal
  already, and the float operations do not move the sum across a rounding boundary.
  So the score differs from that decimal by the representation error of the decimal
  only, at most \<open>1 / 2 ^ 47\<close>.
\<close>

theorem insight_score_rounding:
  "insight_score (calculate_scores r) =
     insight_of (physical_score (calculate_scores r)) (mental_score (calculate_scores r)) \<and>
   (0 \<le> p \<and> p \<le> 100 \<and> 0 \<le> m \<and> m \<le> 100 \<longrightarrow>
      insight_of p m = fl (round1_half_up (6 / 10 * of_int p + 4 / 10 * of_int m)) \<and>
      insight_of p m = fl (round1_half_even (6 / 10 * of_int p + 4 / 10 * of_int m)) \<and>
      round1_half_up (6 / 10 * of_int p + 4 / 10 * of_int m) = of_int (6 * p + 4 * m) / 10 \<and>
      \<bar>insight_of p m - of_int (6 * p + 4 * m) / 10\<bar> \<le> 1 / 2 ^ 47)"
proof -
  have link: "insight_score (calculate_scores r) =
     insight_of (physical_score (calculate_scores r)) (mental_score (calculate_scores r))"
    by (simp add: calculate_scores_sums Let_def)
  have main: "insight_of p m = fl (round1_half_up (6 / 10 * of_int p + 4 / 10 * of_int m)) \<and>
      insight_of p m = fl (round1_half_even (6 / 10 * of_int p + 4 / 10 * of_int m)) \<and>
      round1_half_up (6 / 10 * of_int p + 4 / 10 * of_int m) = of_int (6 * p + 4 * m) / 10 \<and>
      \<bar>insight_of p m - of_int (6 * p + 4 * m) / 10\<bar> \<le> 1 / 2 ^ 47"
    if b: "0 \<le> p" "p \<le> 100" "0 \<le> m" "m \<le> 100"
  proof -
    have near: "insight_of p m = fl (of_int (6 * p + 4 * m) / 10)"
      using b by (rule insight_of_nearest)
    have "(0::rat) \<le> of_int p" "(of_int p :: rat) \<le> 100"
      "(0::rat) \<le> of_int m" "(of_int m :: rat) \<le> 100" using b by simp_all
    then have "\<bar>6 / 10 * (of_int p :: rat) + 4 / 10 * of_int m\<bar> < 128" by linarith
    then have "\<bar>(of_int (6 * p + 4 * m) :: rat) / 10\<bar> < 128"
      by (simp only: weighted_sum_tenths)
    then have "\<bar>fl (of_int (6 * p + 4 * m) / 10) - of_int (6 * p + 4 * m) / 10\<bar> \<le> 1 / 2 ^ 47"
      by (rule fl_error)
    then show ?thesis
      by (simp only: near weighted_sum_tenths round1_exact simp_thms)
  qed
  from link main show ?thesis by blast
qed

theorem insight_score_rounding_witness:
  "insight_of 77 87 = fl (round1_half_up (6 / 10 * of_int 77 + 4 / 10 * of_int 87)) \<and>
   insight_of 77 87 = 81"
proof -
  have h: "(0::int) \<le> 77 \<and> (77::int) \<le> 100 \<and> (0::int) \<le> 87 \<and> (87::int) \<le> 100" by simp
  have e: "fl (round1_half_up (6 / 10 * of_int 77 + 4 / 10 * of_int 87)) = 81" by code_simp
  from insight_score_rounding [of "[]" 77 87] h
  have "insight_of 77 87 = fl (round1_half_up (6 / 10 * of_int 77 + 4 / 10 * of_int 87))"
    by blast
  with e show ?thesis by simp
qed

section \<open>Tier classification\<close>

lemma boundary_literals:
  "get_insight_tier (float_literal (899 / 10)) = ''Monitor''"
  "get_insight_tier (float_literal (699 / 10)) = ''Assist''"
  "get_insight_tier (float_literal (499 / 10)) = ''Intervene''"
  by code_simp+

text \<open>
  Claim C2. The tier is a step function of the score with bands that include their
  lower bound: a score of at least 90 is Independent, from 70 up to but not including
  90 Monitor, from 50 up to but not including 70 Assist, and below 50 Intervene. At the
  boundaries, 90 is Independent, 89.9 Monitor, 70 Monitor, 69.9 Assist, 50 Assist and
  49.9 Intervene, for the decimals and for the floats that the literals denote.
\<close>

theorem tier_bands:
  "(90 \<le> s \<longrightarrow> get_insight_tier s = ''Independent'') \<and>
   (70 \<le> s \<and> s < 90 \<longrightarrow> get_insight_tier s = ''Monitor'') \<and>
   (50 \<le> s \<and> s < 70 \<longrightarrow> get_insight_tier s = ''Assist'') \<and>
   (s < 50 \<longrightarrow> get_insight_tier s = ''Intervene'') \<and>
   get_insight_tier 90 = ''Independent'' \<and>
   get_insight_tier (899 / 10) = ''Monitor'' \<and>
   get_insight_tier (float_literal (899 / 10)) = ''Monitor'' \<and>
   get_insight_tier 70 = ''Monitor'' \<and>
   get_insight_tier (699 / 10) = ''Assist'' \<and>
   get_insight_tier (float_literal (699 / 10)) = ''Assist'' \<and>
   get_insight_tier 50 = ''Assist'' \<and>
   get_insight_tier (499 / 10) = ''Intervene'' \<and>
   get_insight_tier (float_literal (499 / 10)) = ''Intervene''"
  by (simp add: boundary_literals) (simp add: get_insight_tier_def)

theorem tier_bands_witness:
  "get_insight_tier 95 = ''Independent'' \<and> get_insight_tier 75 = ''Monitor'' \<and>
   get_insight_tier 55 = ''Assist'' \<and> get_insight_tier 10 = ''Intervene''"
  using tier_bands [of 95] tier_bands [of 75] tier_bands [of 55] tier_bands [of 10]
  by simp

section \<open>The worst-case response set\<close>

lemma worst_option_minimal:
  "\<forall>q \<in> set questions. \<forall>opt \<in> set (options q).
     physical (impact_of (name q, worst_option (name q))) \<le> physical (impact_of (name q, opt)) \<and>
     mental (impact_of (name q, worst_option (name q))) \<le> mental (impact_of (name q, opt))"
  by (simp add: questions_def worst_option_def worst_case_responses_def impact_of_def
      event_impacts_def)

lemma worst_option_sums:
  "(\<Sum>q\<leftarrow>questions. physical (impact_of (name q, worst_option (name q)))) = - 23"
  "(\<Sum>q\<leftarrow>questions. mental (impact_of (name q, worst_option (name q)))) = - 13"
  by (simp_all add: questions_def worst_option_def worst_case_responses_def impact_of_def
      event_impacts_def)

lemma distinct_question_names: "distinct (map name questions)"
  by (simp add: questions_def)

lemma worst_case_deltas:
  "(\<Sum>e\<leftarrow>worst_case_responses. physical (impact_of e)) = - 23"
  "(\<Sum>e\<leftarrow>worst_case_responses. mental (impact_of e)) = - 13"
  by (simp_all add: worst_case_responses_def impact_of_def event_impacts_def)

lemma fl_81: "fl 81 = 81"
  using fl_ge_int [of 81 81] fl_le_int [of 81 81] by simp

lemma insight_of_77_87: "insight_of 77 87 = 81"
  using insight_of_nearest [of 77 87] by (simp add: fl_81)

lemma worst_case_result:
  "calculate_scores worst_case_responses =
     \<lparr>physical_score = 77, mental_score = 87, insight_score = 81, tier = ''Monitor'',
      physical_delta = - 23, mental_delta = - 13\<rparr>"
  by (simp add: calculate_scores_sums worst_case_deltas insight_of_77_87 get_insight_tier_def)

lemma validate_worst_case:
  "validate_responses worst_case_responses = (worst_case_responses, [])"
  by (simp add: validate_responses_def questions_def worst_case_responses_def)

text \<open>
  Claim C1, as stated: the worst-case response set has summed deltas beyond -100 and
  is clamped to \<^verbatim>\<open>physical_score = 0\<close>, \<^verbatim>\<open>mental_score = 0\<close>, \<^verbatim>\<open>insight_score = 0.0\<close> and
  the tier Intervene. On the tables of the source every part of this fails.
\<close>

theorem worst_case_not_clamped_to_zero:
  "\<not> physical_delta (calculate_scores worst_case_responses) < - 100 \<and>
   \<not> mental_delta (calculate_scores worst_case_responses) < - 100 \<and>
   physical_score (calculate_scores worst_case_responses) \<noteq> 0 \<and>
   mental_score (calculate_scores worst_case_responses) \<noteq> 0 \<and>
   insight_score (calculate_scores worst_case_responses) \<noteq> 0 \<and>
   tier (calculate_scores worst_case_responses) \<noteq> ''Intervene''"
  by (simp add: worst_case_result)

text \<open>
  Claim C1, amended. The worst-case response set answers each of the nine questions
  with the option of least physical and least mental delta among the question's
  options; it passes validation; its summed deltas are -23 and -13, so nothing is
  clamped, and the result is \<^verbatim>\<open>physical_score = 77\<close>, \<^verbatim>\<open>mental_score = 87\<close>,
  \<^verbatim>\<open>insight_score = 81.0\<close> and the tier Monitor.
\<close>

theorem worst_case_scores:
  "validate_responses worst_case_responses = (worst_case_responses, []) \<and>
   (\<forall>q \<in> set questions. \<forall>opt \<in> set (options q).
      physical (impact_of (name q, worst_option (name q))) \<le> physical (impact_of (name q, opt)) \<and>
      mental (impact_of (name q, worst_option (name q))) \<le> mental (impact_of (name q, opt))) \<and>
   calculate_scores worst_case_responses =
     \<lparr>physical_score = 77, mental_score = 87, insight_score = 81, tier = ''Monitor'',
      physical_delta = - 23, mental_delta = - 13\<rparr>"
  using validate_worst_case worst_option_minimal worst_case_result by blast

theorem worst_case_scores_witness:
  "physical (impact_of (''fall_risk'', ''High'')) \<le> physical (impact_of (''fall_risk'', ''Low'')) \<and>
   mental (impact_of (''social_engagement'', ''Socially Isolated''))
     \<le> mental (impact_of (''social_engagement'', ''Minimally Engaged'')) \<and>
   physical_score (calculate_scores worst_case_responses) = 77 \<and>
   tier (calculate_scores worst_case_responses) = ''Monitor''"
  using worst_case_scores
  by (simp add: questions_def worst_option_def worst_case_responses_def)

section \<open>Valid questionnaires\<close>

text \<open>
  When validation reports no error, \<^verbatim>\<open>valid_responses\<close> holds one entry for each
  question, in the order of the questions, with an option of that question.
\<close>

lemma validate_loop_no_errors:
  assumes "snd (validate_loop qs r (valid, errs)) = []"
    and "distinct (map name qs)"
    and "\<forall>q \<in> set qs. map_of valid (name q) = None"
  shows "fst (validate_loop qs r (valid, errs)) =
           valid @ map (\<lambda>q. (name q, the (map_of r (name q)))) qs \<and>
         (\<forall>q \<in> set qs. the (map_of r (name q)) \<in> set (options q))"
  using assms
proof (induction qs arbitrary: valid errs)
  case Nil
  then show ?case by simp
next
  case (Cons q qs)
  from Cons.prems(1) have "errs @ concat (map (violations r) (q # qs)) = []"
    by (simp only: snd_validate_loop)
  then have e: "errs = []" "violations r q = []"
    by simp_all
  then obtain v where v: "map_of r (name q) = Some v" "v \<in> set (options q)"
    by (auto simp: violations_def split: option.splits if_splits)
  have fresh: "map_of valid (name q) = None" using Cons.prems(3) by simp
  have step: "validate_loop (q # qs) r (valid, errs) =
      validate_loop qs r (valid @ [(name q, v)], errs)"
    using v fresh by (simp add: update_fresh)
  have "name q \<notin> name ` set qs"
    using Cons.prems(2) by simp
  then have "\<forall>q' \<in> set qs. name q' \<noteq> name q"
    by (auto simp: image_iff)
  then have "\<forall>q' \<in> set qs. map_of (valid @ [(name q, v)]) (name q') = None"
    using Cons.prems(3) by (simp add: map_add_def)
  with Cons.IH [of "valid @ [(name q, v)]" errs] Cons.prems(1,2) step
  have "fst (validate_loop qs r (valid @ [(name q, v)], errs)) =
           (valid @ [(name q, v)]) @ map (\<lambda>q. (name q, the (map_of r (name q)))) qs \<and>
         (\<forall>q \<in> set qs. the (map_of r (name q)) \<in> set (options q))"
    by simp
  then show ?case using step v by simp
qed

lemma valid_responses_deltas:
  assumes "snd (validate_responses r) = []"
  shows "- 23 \<le> (\<Sum>e\<leftarrow>fst (validate_responses r). physical (impact_of e))"
    and "- 13 \<le> (\<Sum>e\<leftarrow>fst (validate_responses r). mental (impact_of e))"
proof -
  from validate_loop_no_errors [of questions r "[]" "[]"] assms distinct_question_names
  have v: "fst (validate_responses r) = map (\<lambda>q. (name q, the (map_of r (name q)))) questions"
    and o: "\<forall>q \<in> set questions. the (map_of r (name q)) \<in> set (options q)"
    by (simp_all add: validate_responses_def)
  have "(\<Sum>q\<leftarrow>questions. physical (impact_of (name q, worst_option (name q))))
      \<le> (\<Sum>q\<leftarrow>questions. physical (impact_of (name q, the (map_of r (name q)))))"
    using o worst_option_minimal by (intro sum_list_mono) auto
  then show "- 23 \<le> (\<Sum>e\<leftarrow>fst (validate_responses r). physical (impact_of e))"
    by (simp add: v worst_option_sums o_def)
  have "(\<Sum>q\<leftarrow>questions. mental (impact_of (name q, worst_option (name q))))
      \<le> (\<Sum>q\<leftarrow>questions. mental (impact_of (name q, the (map_of r (name q)))))"
    using o worst_option_minimal by (intro sum_list_mono) auto
  then show "- 13 \<le> (\<Sum>e\<leftarrow>fst (validate_responses r). mental (impact_of e))"
    by (simp add: v worst_option_sums o_def)
qed

lemma tier_of_high_score:
  "81 \<le> s \<Longrightarrow> get_insight_tier s = ''Independent'' \<or> get_insight_tier s = ''Monitor''"
  by (simp add: get_insight_tier_def)

lemma insight_of_lower:
  assumes "77 \<le> p" "p \<le> 100" "87 \<le> m" "m \<le> 100"
  shows "81 \<le> insight_of p m"
proof -
  have near: "insight_of p m = fl (of_int (6 * p + 4 * m) / 10)"
    using assms by (intro insight_of_nearest) auto
  define x :: rat where "x = of_int (6 * p + 4 * m)"
  have "810 \<le> 6 * p + 4 * m" "6 * p + 4 * m \<le> 1000" using assms by linarith+
  then have k: "810 \<le> x" "x \<le> 1000"
    unfolding x_def by (metis of_int_le_iff of_int_numeral)+
  have "\<bar>x / 10\<bar> < 128"
    using k by linarith
  moreover have "(of_int 81 :: rat) \<le> x / 10"
    using k by simp
  ultimately have "(of_int 81 :: rat) \<le> fl (x / 10)"
    by (rule fl_ge_int)
  then show ?thesis by (simp only: near x_def of_int_numeral)
qed

lemma valid_scores_bounds:
  assumes "snd (validate_responses r) = []"
  shows "- 23 \<le> physical_delta (calculate_scores (fst (validate_responses r))) \<and>
         - 13 \<le> mental_delta (calculate_scores (fst (validate_responses r))) \<and>
         77 \<le> physical_score (calculate_scores (fst (validate_responses r))) \<and>
         87 \<le> mental_score (calculate_scores (fst (validate_responses r))) \<and>
         81 \<le> insight_score (calculate_scores (fst (validate_responses r))) \<and>
         (tier (calculate_scores (fst (validate_responses r))) = ''Independent'' \<or>
          tier (calculate_scores (fst (validate_responses r))) = ''Monitor'')"
proof -
  define v where "v = fst (validate_responses r)"
  define pd where "pd = (\<Sum>e\<leftarrow>v. physical (impact_of e))"
  define md where "md = (\<Sum>e\<leftarrow>v. mental (impact_of e))"
  define ps where "ps = max 0 (min 100 (100 + pd))"
  define ms where "ms = max 0 (min 100 (100 + md))"
  have pd: "- 23 \<le> pd" and md: "- 13 \<le> md"
    unfolding pd_def md_def v_def using valid_responses_deltas [OF assms] by simp_all
  have ps: "77 \<le> ps" "ps \<le> 100" and ms: "87 \<le> ms" "ms \<le> 100"
    unfolding ps_def ms_def using pd md by simp_all
  have ins: "81 \<le> insight_of ps ms" using ps ms by (rule insight_of_lower)
  have res: "calculate_scores v =
      \<lparr>physical_score = ps, mental_score = ms, insight_score = insight_of ps ms,
       tier = get_insight_tier (insight_of ps ms), physical_delta = pd, mental_delta = md\<rparr>"
    by (simp add: calculate_scores_sums Let_def ps_def ms_def pd_def md_def)
  show ?thesis
    unfolding v_def [symmetric] res using pd md ps ms ins tier_of_high_score [OF ins] by simp
qed

lemma process_success_scores:
  assumes "process_assessment c a = Success sent scores pdf"
  shows "\<exists>r. ad_responses a = Some (ResponsesDict r) \<and> snd (validate_responses r) = [] \<and>
             scores = calculate_scores (fst (validate_responses r))"
proof -
  from assms have ok: "validate_assessment_json a = []"
    by (auto simp: process_assessment_def Let_def split: if_splits)
  then obtain r where r: "ad_responses a = Some (ResponsesDict r)" "snd (validate_responses r) = []"
    by (auto simp: validate_assessment_json_def split: option.splits responses_value.splits if_splits)
  from assms ok r have "scores = calculate_scores (fst (validate_responses r))"
    by (auto simp: process_assessment_def Let_def split_beta split: if_splits delivery.splits)
  with r show ?thesis by blast
qed

text \<open>
  A dictionary that passes validation scores as its \<^verbatim>\<open>valid_responses\<close> do: its
  other keys are not questions of the impact table.
\<close>

lemma sum_list_dict_keys:
  assumes "distinct (map fst r)" "distinct ks"
    and "\<forall>k \<in> set ks. map_of r k \<noteq> None"
    and "\<forall>e \<in> set r. fst e \<notin> set ks \<longrightarrow> f e = (0::int)"
  shows "(\<Sum>e\<leftarrow>r. f e) = (\<Sum>k\<leftarrow>ks. f (k, the (map_of r k)))"
  using assms
proof (induction ks arbitrary: r)
  case Nil
  then have "\<forall>e \<in> set r. f e = 0" by simp
  then have "sum_list (map f r) = 0" by (induction r) simp_all
  then show ?case by simp
next
  case (Cons k ks)
  from Cons.prems(3) obtain v where v: "map_of r k = Some v" by auto
  then have "(k, v) \<in> set r" by (rule map_of_SomeD)
  then obtain xs ys where r: "r = xs @ (k, v) # ys" by (auto dest: split_list)
  have fresh: "k \<notin> fst ` set (xs @ ys)" and d: "distinct (map fst (xs @ ys))"
    using Cons.prems(1) unfolding r by auto
  have other: "map_of r k' = map_of (xs @ ys) k'" if "k' \<noteq> k" for k'
    using that unfolding r by (simp add: map_add_def split: option.splits)
  have ks: "\<forall>k' \<in> set ks. k' \<noteq> k" using Cons.prems(2) by auto
  have "(\<Sum>e\<leftarrow>xs @ ys. f e) = (\<Sum>k\<leftarrow>ks. f (k, the (map_of (xs @ ys) k)))"
  proof (rule Cons.IH [OF d])
    show "distinct ks" using Cons.prems(2) by simp
    show "\<forall>k' \<in> set ks. map_of (xs @ ys) k' \<noteq> None"
      using Cons.prems(3) ks other by (metis list.set_intros(2))
    show "\<forall>e \<in> set (xs @ ys). fst e \<notin> set ks \<longrightarrow> f e = 0"
    proof (intro ballI impI)
      fix e assume e: "e \<in> set (xs @ ys)" "fst e \<notin> set ks"
      then have "fst e \<noteq> k" using fresh by (metis imageI)
      moreover have "e \<in> set r" using e(1) unfolding r by auto
      ultimately show "f e = 0" using Cons.prems(4) e(2) by simp
    qed
  qed
  also have "\<dots> = (\<Sum>k\<leftarrow>ks. f (k, the (map_of r k)))"
    using ks other by (intro arg_cong [where f = sum_list] map_cong) auto
  finally have "(\<Sum>e\<leftarrow>xs @ ys. f e) = (\<Sum>k\<leftarrow>ks. f (k, the (map_of r k)))" .
  moreover have "(\<Sum>e\<leftarrow>r. f e) = f (k, v) + (\<Sum>e\<leftarrow>xs @ ys. f e)"
    unfolding r by simp
  ultimately show ?case using v by simp
qed

lemma impact_table_keys: "fst ` set event_impacts = name ` set questions"
  by (simp add: event_impacts_def questions_def)

lemma impact_of_unknown_question:
  assumes "fst e \<notin> name ` set questions"
  shows "impact_of e = \<lparr>physical = 0, mental = 0\<rparr>"
proof -
  have "map_of event_impacts (fst e) = None"
    using assms by (simp add: map_of_eq_None_iff impact_table_keys)
  then show ?thesis by (simp add: impact_of_def)
qed

lemma valid_dict_same_scores:
  assumes "snd (validate_responses r) = []" "distinct (map fst r)"
  shows "calculate_scores r = calculate_scores (fst (validate_responses r))"
proof -
  from validate_loop_no_errors [of questions r "[]" "[]"] assms(1) distinct_question_names
  have v: "fst (validate_responses r) = map (\<lambda>q. (name q, the (map_of r (name q)))) questions"
    by (simp add: validate_responses_def)
  have "concat (map (violations r) questions) = []"
    using assms(1) by (simp add: validate_responses_def snd_validate_loop)
  then have present: "\<forall>k \<in> set (map name questions). map_of r k \<noteq> None"
    by (auto simp: violations_def split: option.splits)
  have sums: "(\<Sum>e\<leftarrow>r. f (impact_of e)) = (\<Sum>e\<leftarrow>fst (validate_responses r). f (impact_of e))"
    if "f \<lparr>physical = 0, mental = 0\<rparr> = (0::int)" for f
  proof -
    have "(\<Sum>e\<leftarrow>r. f (impact_of e)) =
        (\<Sum>k\<leftarrow>map name questions. f (impact_of (k, the (map_of r k))))"
      using assms(2) distinct_question_names present
      by (rule sum_list_dict_keys) (simp add: impact_of_unknown_question that)
    then show ?thesis by (simp add: v o_def)
  qed
  have "(\<Sum>e\<leftarrow>r. physical (impact_of e)) = (\<Sum>e\<leftarrow>fst (validate_responses r). physical (impact_of e))"
    by (rule sums) simp
  moreover
  have "(\<Sum>e\<leftarrow>r. mental (impact_of e)) = (\<Sum>e\<leftarrow>fst (validate_responses r). mental (impact_of e))"
    by (rule sums) simp
  ultimately show ?thesis by (simp add: calculate_scores_sums)
qed

text \<open>
  Claim C10. For every response set that passes validation, the scores computed from
  its valid responses (as \<^verbatim>\<open>process_assessment\<close> does) have a summed physical delta of
  at least -23 and a summed mental delta of at least -13, hence a physical score of at
  least 77, a mental score of at least 87, an insight score of at least 81.0 and the
  tier Independent or Monitor. Scoring the response dictionary itself gives the same
  result, and so does every successful run of \<^verbatim>\<open>process_assessment\<close>: the tiers
  Assist and Intervene are not reachable from a valid questionnaire.
\<close>

theorem valid_questionnaire_tiers:
  "(snd (validate_responses r) = [] \<longrightarrow>
      - 23 \<le> physical_delta (calculate_scores (fst (validate_responses r))) \<and>
      - 13 \<le> mental_delta (calculate_scores (fst (validate_responses r))) \<and>
      77 \<le> physical_score (calculate_scores (fst (validate_responses r))) \<and>
      87 \<le> mental_score (calculate_scores (fst (validate_responses r))) \<and>
      81 \<le> insight_score (calculate_scores (fst (validate_responses r))) \<and>
      (tier (calculate_scores (fst (validate_responses r))) = ''Independent'' \<or>
       tier (calculate_scores (fst (validate_responses r))) = ''Monitor'')) \<and>
   (snd (validate_responses r) = [] \<and> distinct (map fst r) \<longrightarrow>
      calculate_scores r = calculate_scores (fst (validate_responses r))) \<and>
   (process_assessment c a = Success sent scores pdf \<longrightarrow>
      77 \<le> physical_score scores \<and> 87 \<le> mental_score scores \<and>
      81 \<le> insight_score scores \<and>
      (tier scores = ''Independent'' \<or> tier scores = ''Monitor''))"
proof (intro conjI impI)
  assume "process_assessment c a = Success sent scores pdf"
  then obtain d where d: "snd (validate_responses d) = []"
      "scores = calculate_scores (fst (validate_responses d))"
    using process_success_scores by blast
  from valid_scores_bounds [OF d(1)]
  show "77 \<le> physical_score scores" "87 \<le> mental_score scores"
    "81 \<le> insight_score scores" "tier scores = ''Independent'' \<or> tier scores = ''Monitor''"
    unfolding d(2) by blast+
qed (use valid_scores_bounds [of r] valid_dict_same_scores [of r] in blast)+

theorem valid_questionnaire_tiers_witness:
  "snd (validate_responses worst_case_responses) = [] \<and>
   distinct (map fst worst_case_responses) \<and>
   - 23 \<le> physical_delta (calculate_scores (fst (validate_responses worst_case_responses))) \<and>
   81 \<le> insight_score (calculate_scores (fst (validate_responses worst_case_responses))) \<and>
   calculate_scores worst_case_responses =
     calculate_scores (fst (validate_responses worst_case_responses)) \<and>
   tier (calculate_scores worst_case_responses) = ''Monitor''"
proof -
  have h: "snd (validate_responses worst_case_responses) = []"
    by (simp add: validate_worst_case)
  have d: "distinct (map fst worst_case_responses)"
    by (simp add: worst_case_responses_def)
  from valid_questionnaire_tiers [of worst_case_responses] h d
  show ?thesis by (simp add: worst_case_result validate_worst_case)
qed

end
